theory Spec2Isabelle
  imports Complex_Main "HOL-Library.Word" "HOL-Library.Sublist"
begin

unbundle bit_operations_syntax

section \<open>Python strings\<close>

text \<open>
  A Python \<open>str\<close> is a sequence of code points. The model is \<^typ>\<open>string\<close>: every
  \<^typ>\<open>char\<close> stands for the code point of the same number, so the strings of the model
  are the Python strings over U+0000 .. U+00FF. \<open>length\<close> counts code points, as
  \<open>len\<close> does; the bytes of \<open>str.encode()\<close> are given by \<open>encode\<close> below.
\<close>

definition is_space :: "char \<Rightarrow> bool" where
  \<comment> \<open>\<open>str.isspace\<close> on one code point below 256\<close>
  "is_space c = (let n = (of_char c :: nat) in
     (9 \<le> n \<and> n \<le> 13) \<or> (28 \<le> n \<and> n \<le> 32) \<or> n = 133 \<or> n = 160)"

definition lower_char :: "char \<Rightarrow> char" where
  "lower_char c = (let n = (of_char c :: nat) in
     if (65 \<le> n \<and> n \<le> 90) \<or> (192 \<le> n \<and> n \<le> 222 \<and> n \<noteq> 215)
     then char_of (n + 32) else c)"

definition lower :: "string \<Rightarrow> string" where
  \<comment> \<open>\<open>s.lower()\<close>\<close>
  "lower s = map lower_char s"

definition strip :: "string \<Rightarrow> string" where
  \<comment> \<open>\<open>s.strip()\<close>\<close>
  "strip s = rev (dropWhile is_space (rev (dropWhile is_space s)))"

definition rstrip_chars :: "string \<Rightarrow> string \<Rightarrow> string" where
  \<comment> \<open>\<open>s.rstrip(chars)\<close>\<close>
  "rstrip_chars chars s = rev (dropWhile (\<lambda>c. c \<in> set chars) (rev s))"

fun split_acc :: "string \<Rightarrow> string \<Rightarrow> string list" where
  "split_acc w [] = (if w = [] then [] else [w])"
| "split_acc w (c # cs) =
     (if is_space c then (if w = [] then split_acc [] cs else w # split_acc [] cs)
      else split_acc (w @ [c]) cs)"

definition split :: "string \<Rightarrow> string list" where
  \<comment> \<open>\<open>s.split()\<close>: the maximal runs of non-whitespace\<close>
  "split s = split_acc [] s"

fun str_in :: "string \<Rightarrow> string \<Rightarrow> bool" where
  \<comment> \<open>\<open>sub in s\<close>\<close>
  "str_in sub [] = (sub = [])"
| "str_in sub (c # cs) = (prefix sub (c # cs) \<or> str_in sub cs)"

fun remove_all :: "string \<Rightarrow> string \<Rightarrow> string" where
  \<comment> \<open>\<open>s.replace(tok, "")\<close> for a non-empty \<open>tok\<close>: occurrences are found left to right,
      without overlap\<close>
  "remove_all tok [] = []"
| "remove_all tok (c # cs) =
     (if tok \<noteq> [] \<and> prefix tok (c # cs) then remove_all tok (drop (length tok) (c # cs))
      else c # remove_all tok cs)"

fun split_sep_acc :: "string \<Rightarrow> string \<Rightarrow> string \<Rightarrow> string list" where
  "split_sep_acc sep cur [] = [cur]"
| "split_sep_acc sep cur (c # cs) =
     (if sep \<noteq> [] \<and> prefix sep (c # cs)
      then cur # split_sep_acc sep [] (drop (length sep) (c # cs))
      else split_sep_acc sep (cur @ [c]) cs)"

definition split_sep :: "string \<Rightarrow> string \<Rightarrow> string list" where
  \<comment> \<open>\<open>s.split(sep)\<close> for a non-empty \<open>sep\<close>\<close>
  "split_sep sep s = split_sep_acc sep [] s"

fun join :: "string \<Rightarrow> string list \<Rightarrow> string" where
  \<comment> \<open>\<open>sep.join(xs)\<close>\<close>
  "join sep [] = []"
| "join sep [x] = x"
| "join sep (x # y # ys) = x @ sep @ join sep (y # ys)"

definition any_in :: "string list \<Rightarrow> string \<Rightarrow> bool" where
  \<comment> \<open>\<open>any(term in s for term in terms)\<close>\<close>
  "any_in terms s = list_ex (\<lambda>t. str_in t s) terms"

section \<open>Token-set similarity and the fuzzy search\<close>

text \<open>
  \<open>_calculate_text_similarity\<close> divides two set sizes. Python computes the quotient as a
  binary float; the model keeps the exact quotient, a rational. The two agree on every
  comparison made below as long as the word sets have fewer than \<open>2 ^ 25\<close> elements.
\<close>

definition calculate_text_similarity :: "string \<Rightarrow> string \<Rightarrow> rat" where
  "calculate_text_similarity text1 text2 =
     (let words1 = set (split (lower text1));
          words2 = set (split (lower text2))
      in if words1 = {} \<or> words2 = {} then 0
         else of_nat (card (words1 \<inter> words2)) / of_nat (card (words1 \<union> words2)))"

record hit =
  hit_query :: string        \<comment> \<open>\<open>hit.get('query', '')\<close>\<close>
  hit_response :: string
  hit_object_id :: string
  hit_created_at :: string   \<comment> \<open>\<open>hit.get('createdAt', '')\<close>\<close>
  hit_conversation_id :: "string option option"
    \<comment> \<open>\<open>None\<close>: the hit has no key \<open>conversationID\<close>\<close>

definition user_part :: "string \<Rightarrow> string" where
  \<comment> \<open>\<open>if "user:" in s: s = s.split("user:")[-1].strip()\<close>\<close>
  "user_part s = (if str_in ''user:'' s then strip (last (split_sep ''user:'' s)) else s)"

definition hit_user_query :: "hit \<Rightarrow> string" where
  "hit_user_query h = user_part (strip (lower (hit_query h)))"

definition hit_similarity :: "string \<Rightarrow> hit \<Rightarrow> rat" where
  "hit_similarity user_query_only h = calculate_text_similarity user_query_only (hit_user_query h)"

fun best_match_loop :: "string \<Rightarrow> hit list \<Rightarrow> hit option \<times> rat \<Rightarrow> hit option \<times> rat" where
  \<comment> \<open>the \<open>for hit in results.get('hits')\<close> loop of \<open>find_previous_response\<close>, on the pair
      \<open>(best_match, best_score)\<close>\<close>
  "best_match_loop uq [] acc = acc"
| "best_match_loop uq (h # hs) (best_match, best_score) =
     (let similarity = hit_similarity uq h in
      if similarity > best_score then best_match_loop uq hs (Some h, similarity)
      else best_match_loop uq hs (best_match, best_score))"

definition find_best_match :: "string \<Rightarrow> hit list \<Rightarrow> hit option" where
  \<comment> \<open>the similarity stage of \<open>find_previous_response\<close>: \<open>None\<close> means that the
      stage returns nothing and the method goes on to its next stage\<close>
  "find_best_match user_query_only hits =
     (if hits \<noteq> [] then fst (best_match_loop user_query_only hits (None, 7 / 10)) else None)"

section \<open>Session metrics\<close>

text \<open>
  \<open>self.current_session\<close> is a dictionary with a fixed set of keys; keys that are only
  added later are optional fields: \<open>end_time\<close>, \<open>errors\<close>, and the ten derived values,
  which \<open>calculate_derived_metrics\<close> always writes together (the field \<open>derived\<close>).
  Latencies, rates and costs are Python floats; the model computes them exactly, as
  rationals, and \<open>py_round\<close> rounds the exact value half to even as \<open>round(x, n)\<close> does.
  \<open>datetime.now().isoformat()\<close> is a parameter of every operation that reads the clock.
\<close>

record type_stats =
  ts_total :: nat
  ts_hits :: nat
  ts_misses :: nat

record query_entry =
  qe_timestamp :: string
  qe_query :: string
  qe_cache_hit :: bool
  qe_response_time :: rat
  qe_query_type :: "string option"
  qe_object_id :: "string option"

record error_entry =
  ee_timestamp :: string
  ee_type :: "string option"
  ee_details :: "string option"

record derived_metrics =
  cache_hit_rate :: rat
  cache_miss_rate :: rat
  avg_response_time :: rat
  avg_cache_hit_time :: rat
  avg_generation_time :: rat
  estimated_tokens_saved :: nat
  estimated_cost_saved :: rat
  potential_cost_without_caching :: rat
  actual_cost_with_caching :: rat
  cost_reduction_percentage :: rat

record session =
  start_time :: string
  total_queries :: nat
  cache_hits :: nat
  cache_misses :: nat
  api_errors :: nat
  response_times :: "rat list"
  cache_hit_times :: "rat list"
  generation_times :: "rat list"
  query_types :: "string \<rightharpoonup> type_stats"
  query_log :: "query_entry list"
  algolia_operations :: "(string \<times> rat) list"
  errors :: "error_entry list option"
  end_time :: "string option"
  derived :: "derived_metrics option"

definition new_session :: "string \<Rightarrow> session" where
  \<comment> \<open>the dictionary literal of \<open>__init__\<close> and of \<open>reset_metrics\<close>\<close>
  "new_session now =
     \<lparr>start_time = now, total_queries = 0, cache_hits = 0, cache_misses = 0, api_errors = 0,
      response_times = [], cache_hit_times = [], generation_times = [],
      query_types = Map.empty, query_log = [],
      algolia_operations =
        [(''search_operations'', 0), (''get_operations'', 0), (''browse_operations'', 0),
         (''save_operations'', 0), (''update_operations'', 0), (''delete_operations'', 0),
         (''total_operations'', 0), (''operations_cost'', 0)],
      errors = None, end_time = None, derived = None\<rparr>"

definition estimated_cost_per_1k_tokens :: rat where
  "estimated_cost_per_1k_tokens = 2 / 1000"

definition estimated_tokens_per_response :: nat where
  "estimated_tokens_per_response = 1000"

definition round_half_even :: "rat \<Rightarrow> int" where
  "round_half_even x =
     (let f = \<lfloor>x\<rfloor>; d = x - of_int f in
      if d < 1 / 2 then f else if 1 / 2 < d then f + 1 else if even f then f else f + 1)"

definition py_round :: "nat \<Rightarrow> rat \<Rightarrow> rat" where
  \<comment> \<open>\<open>round(x, ndigits)\<close>\<close>
  "py_round ndigits x = of_int (round_half_even (x * 10 ^ ndigits)) / 10 ^ ndigits"

definition average :: "rat list \<Rightarrow> rat" where
  \<comment> \<open>\<open>round(sum(xs) / len(xs), 2) if xs else 0\<close>\<close>
  "average xs = (if xs \<noteq> [] then py_round 2 (sum_list xs / of_nat (length xs)) else 0)"

definition derived_values :: "session \<Rightarrow> derived_metrics" where
  \<comment> \<open>the ten values \<open>calculate_derived_metrics\<close> computes\<close>
  "derived_values s =
     (let total = total_queries s;
          hits = cache_hits s;
          misses = cache_misses s;
          tokens_saved = hits * estimated_tokens_per_response;
          cost_saved = (of_nat tokens_saved / 1000) * estimated_cost_per_1k_tokens;
          potential_cost =
            (of_nat (total * estimated_tokens_per_response) / 1000) * estimated_cost_per_1k_tokens;
          actual_cost =
            (of_nat (misses * estimated_tokens_per_response) / 1000) * estimated_cost_per_1k_tokens
      in \<lparr>cache_hit_rate =
              (if total > 0 then py_round 2 (of_nat hits / of_nat total * 100) else 0),
          cache_miss_rate =
              (if total > 0 then py_round 2 (of_nat misses / of_nat total * 100) else 0),
          avg_response_time = average (response_times s),
          avg_cache_hit_time = average (cache_hit_times s),
          avg_generation_time = average (generation_times s),
          estimated_tokens_saved = tokens_saved,
          estimated_cost_saved = py_round 4 cost_saved,
          potential_cost_without_caching = py_round 4 potential_cost,
          actual_cost_with_caching = py_round 4 actual_cost,
          cost_reduction_percentage =
              py_round 2 (if potential_cost > 0 then cost_saved / potential_cost * 100 else 0)\<rparr>)"

definition calculate_derived_metrics :: "session \<Rightarrow> session" where
  \<comment> \<open>stores the ten values in the session dictionary\<close>
  "calculate_derived_metrics s = s\<lparr>derived := Some (derived_values s)\<rparr>"

definition truthy :: "string option \<Rightarrow> bool" where
  \<comment> \<open>Python's truth value of an optional string: \<open>None\<close> and \<open>""\<close> are false\<close>
  "truthy x = (case x of None \<Rightarrow> False | Some v \<Rightarrow> v \<noteq> [])"

definition bump_type :: "bool \<Rightarrow> string \<Rightarrow> (string \<rightharpoonup> type_stats) \<Rightarrow> (string \<rightharpoonup> type_stats)" where
  "bump_type is_cache_hit qt m =
     (let st = (case m qt of None \<Rightarrow> \<lparr>ts_total = 0, ts_hits = 0, ts_misses = 0\<rparr> | Some v \<Rightarrow> v);
          st1 = st\<lparr>ts_total := ts_total st + 1\<rparr>
      in m(qt \<mapsto> (if is_cache_hit then st1\<lparr>ts_hits := ts_hits st1 + 1\<rparr>
                     else st1\<lparr>ts_misses := ts_misses st1 + 1\<rparr>)))"

definition log_query ::
  "string \<Rightarrow> string \<Rightarrow> bool \<Rightarrow> rat \<Rightarrow> string option \<Rightarrow> string option \<Rightarrow> session \<Rightarrow> session" where
  "log_query now query is_cache_hit response_time query_type object_id s =
     (let s1 = s\<lparr>total_queries := total_queries s + 1\<rparr>;
          s2 = (if is_cache_hit
                then s1\<lparr>cache_hits := cache_hits s1 + 1,
                        cache_hit_times := cache_hit_times s1 @ [response_time]\<rparr>
                else s1\<lparr>cache_misses := cache_misses s1 + 1,
                        generation_times := generation_times s1 @ [response_time]\<rparr>);
          s3 = s2\<lparr>response_times := response_times s2 @ [response_time]\<rparr>;
          s4 = (if truthy query_type
                then s3\<lparr>query_types := bump_type is_cache_hit (the query_type) (query_types s3)\<rparr>
                else s3);
          query_entry =
            \<lparr>qe_timestamp = now,
             qe_query = (if length query > 100 then take 100 query @ ''...'' else query),
             qe_cache_hit = is_cache_hit, qe_response_time = response_time,
             qe_query_type = query_type, qe_object_id = object_id\<rparr>
      in s4\<lparr>query_log := query_log s4 @ [query_entry]\<rparr>)"

definition log_error :: "string \<Rightarrow> string option \<Rightarrow> string option \<Rightarrow> session \<Rightarrow> session" where
  "log_error now error_type details s =
     (let s1 = s\<lparr>api_errors := api_errors s + 1\<rparr>;
          s2 = (if errors s1 = None then s1\<lparr>errors := Some []\<rparr> else s1);
          error_entry =
            \<lparr>ee_timestamp = now, ee_type = error_type,
             ee_details = (if truthy details then Some (take 200 (the details)) else None)\<rparr>
      in s2\<lparr>errors := Some (the (errors s2) @ [error_entry])\<rparr>)"

datatype role = User | Assistant

record message =
  msg_role :: role
  msg_content :: string

record assistant =
  current_session :: session
  all_sessions :: "session list"
  metrics_file :: "(session list \<times> string) option"
    \<comment> \<open>what the metrics file holds: the sessions and \<open>last_updated\<close>\<close>
  conversation_history :: "message list"
  conversation_id :: "string option"

definition save_metrics :: "string \<Rightarrow> string \<Rightarrow> bool \<Rightarrow> assistant \<Rightarrow> assistant" where
  \<comment> \<open>\<open>now1\<close>, \<open>now2\<close>: the two clock readings; \<open>io_ok\<close>: whether writing the file
      succeeds (a failure is caught and printed)\<close>
  "save_metrics now1 now2 io_ok a =
     (let cs = calculate_derived_metrics ((current_session a)\<lparr>end_time := Some now1\<rparr>);
          a1 = a\<lparr>current_session := cs\<rparr>
      in if io_ok then a1\<lparr>metrics_file := Some (all_sessions a1 @ [cs], now2)\<rparr> else a1)"

definition reset_metrics :: "string \<Rightarrow> string \<Rightarrow> string \<Rightarrow> bool \<Rightarrow> assistant \<Rightarrow> assistant" where
  "reset_metrics now1 now2 now3 io_ok a =
     (save_metrics now1 now2 io_ok a)\<lparr>current_session := new_session now3\<rparr>"

inductive reachable :: "session \<Rightarrow> bool" where
  \<comment> \<open>the values \<open>self.current_session\<close> takes, from a fresh session, under
      \<open>log_query\<close>, \<open>log_error\<close> and \<open>reset_metrics\<close>\<close>
  fresh: "reachable (new_session now)"
| query: "reachable s \<Longrightarrow> reachable (log_query now q is_hit rt qt oid s)"
| error: "reachable s \<Longrightarrow> reachable (log_error now et details s)"
| reset: "reachable (current_session a) \<Longrightarrow>
          reachable (current_session (reset_metrics now1 now2 now3 io_ok a))"

definition session_consistent :: "session \<Rightarrow> bool" where
  "session_consistent s \<longleftrightarrow>
     total_queries s = cache_hits s + cache_misses s \<and>
     length (response_times s) = total_queries s \<and>
     length (cache_hit_times s) = cache_hits s \<and>
     length (generation_times s) = cache_misses s"

fun add_count :: "string \<Rightarrow> rat \<Rightarrow> (string \<times> rat) list \<Rightarrow> (string \<times> rat) list" where
  \<comment> \<open>\<open>if key not in ops: ops[key] = 0\<close>, then \<open>ops[key] += count\<close>\<close>
  "add_count key count [] = [(key, count)]"
| "add_count key count ((k, v) # ops) =
     (if k = key then (k, v + count) # ops else (k, v) # add_count key count ops)"

definition track_algolia_operation :: "string \<Rightarrow> rat \<Rightarrow> session \<Rightarrow> session" where
  "track_algolia_operation operation_type count s =
     s\<lparr>algolia_operations :=
         add_count ''total_operations'' count
           (add_count operation_type count (algolia_operations s))\<rparr>"

inductive session_state :: "session \<Rightarrow> bool" where
  \<comment> \<open>the values \<open>self.current_session\<close> takes under every method that writes it:
      besides the three operations of \<open>reachable\<close>, the derived values
      (\<open>calculate_derived_metrics\<close>, called by the summary, the report, the charts and the
      metrics route), \<open>save_metrics\<close>, the end time set by the report, and the
      operation counters\<close>
  fresh: "session_state (new_session now)"
| query: "session_state s \<Longrightarrow> session_state (log_query now q is_hit rt qt oid s)"
| error: "session_state s \<Longrightarrow> session_state (log_error now et details s)"
| reset: "session_state (current_session a) \<Longrightarrow>
          session_state (current_session (reset_metrics now1 now2 now3 io_ok a))"
| derive: "session_state s \<Longrightarrow> session_state (calculate_derived_metrics s)"
| save: "session_state (current_session a) \<Longrightarrow>
         session_state (current_session (save_metrics now1 now2 io_ok a))"
| ended: "session_state s \<Longrightarrow> session_state (s\<lparr>end_time := Some now\<rparr>)"
| track: "session_state s \<Longrightarrow> session_state (track_algolia_operation operation_type count s)"

section \<open>Hashing\<close>

text \<open>
  \<open>s.encode()\<close> is UTF-8: a code point below 128 is one byte, a code point from 128 to 255
  is two bytes.
\<close>

type_synonym byte = "8 word"

definition utf8_char :: "char \<Rightarrow> byte list" where
  "utf8_char c = (let n = (of_char c :: nat) in
     if n < 128 then [word_of_nat n]
     else [word_of_nat (192 + n div 64), word_of_nat (128 + n mod 64)])"

definition encode :: "string \<Rightarrow> byte list" where
  "encode s = concat (map utf8_char s)"

text \<open>
  \<open>hashlib.md5\<close> belongs to Python's standard library, not to the repository. It is
  written out here after RFC 1321 so that the keys are concrete strings: padding to a
  multiple of 64 bytes, sixteen little-endian words per block, sixty-four steps per block.
\<close>

type_synonym md5_state = "32 word \<times> 32 word \<times> 32 word \<times> 32 word"

definition md5_shifts :: "nat list" where
  "md5_shifts =
    [7, 12, 17, 22, 7, 12, 17, 22, 7, 12, 17, 22, 7, 12, 17, 22,
     5, 9, 14, 20, 5, 9, 14, 20, 5, 9, 14, 20, 5, 9, 14, 20,
     4, 11, 16, 23, 4, 11, 16, 23, 4, 11, 16, 23, 4, 11, 16, 23,
     6, 10, 15, 21, 6, 10, 15, 21, 6, 10, 15, 21, 6, 10, 15, 21]"

definition md5_sines :: "32 word list" where
  "md5_sines =
    [0xd76aa478, 0xe8c7b756, 0x242070db, 0xc1bdceee, 0xf57c0faf, 0x4787c62a, 0xa8304613, 0xfd469501,
     0x698098d8, 0x8b44f7af, 0xffff5bb1, 0x895cd7be, 0x6b901122, 0xfd987193, 0xa679438e, 0x49b40821,
     0xf61e2562, 0xc040b340, 0x265e5a51, 0xe9b6c7aa, 0xd62f105d, 0x02441453, 0xd8a1e681, 0xe7d3fbc8,
     0x21e1cde6, 0xc33707d6, 0xf4d50d87, 0x455a14ed, 0xa9e3e905, 0xfcefa3f8, 0x676f02d9, 0x8d2a4c8a,
     0xfffa3942, 0x8771f681, 0x6d9d6122, 0xfde5380c, 0xa4beea44, 0x4bdecfa9, 0xf6bb4b60, 0xbebfbc70,
     0x289b7ec6, 0xeaa127fa, 0xd4ef3085, 0x04881d05, 0xd9d4d039, 0xe6db99e5, 0x1fa27cf8, 0xc4ac5665,
     0xf4292244, 0x432aff97, 0xab9423a7, 0xfc93a039, 0x655b59c3, 0x8f0ccc92, 0xffeff47d, 0x85845dd1,
     0x6fa87e4f, 0xfe2ce6e0, 0xa3014314, 0x4e0811a1, 0xf7537e82, 0xbd3af235, 0x2ad7d2bb, 0xeb86d391]"

definition rotl32 :: "nat \<Rightarrow> 32 word \<Rightarrow> 32 word" where
  "rotl32 n x = push_bit n x OR drop_bit (32 - n) x"

definition md5_mix :: "nat \<Rightarrow> 32 word \<Rightarrow> 32 word \<Rightarrow> 32 word \<Rightarrow> 32 word" where
  "md5_mix i b c d =
     (if i < 16 then (b AND c) OR (NOT b AND d)
      else if i < 32 then (d AND b) OR (NOT d AND c)
      else if i < 48 then b XOR c XOR d
      else c XOR (b OR NOT d))"

definition md5_index :: "nat \<Rightarrow> nat" where
  "md5_index i =
     (if i < 16 then i
      else if i < 32 then (5 * i + 1) mod 16
      else if i < 48 then (3 * i + 5) mod 16
      else (7 * i) mod 16)"

fun md5_step :: "32 word list \<Rightarrow> md5_state \<Rightarrow> nat \<Rightarrow> md5_state" where
  "md5_step m (a, b, c, d) i =
     (d, b + rotl32 (md5_shifts ! i) (a + md5_mix i b c d + md5_sines ! i + m ! md5_index i), b, c)"

fun le_word :: "byte list \<Rightarrow> 32 word" where
  "le_word [] = 0"
| "le_word (x # xs) = ucast x + push_bit 8 (le_word xs)"

fun block_words :: "nat \<Rightarrow> byte list \<Rightarrow> 32 word list" where
  "block_words 0 bs = []"
| "block_words (Suc n) bs = le_word (take 4 bs) # block_words n (drop 4 bs)"

fun md5_compress :: "md5_state \<Rightarrow> byte list \<Rightarrow> md5_state" where
  "md5_compress (a0, b0, c0, d0) blk =
     (case foldl (md5_step (block_words 16 blk)) (a0, b0, c0, d0) [0..<64] of
        (a, b, c, d) \<Rightarrow> (a0 + a, b0 + b, c0 + c, d0 + d))"

fun md5_blocks :: "nat \<Rightarrow> md5_state \<Rightarrow> byte list \<Rightarrow> md5_state" where
  "md5_blocks 0 st bs = st"
| "md5_blocks (Suc n) st bs = md5_blocks n (md5_compress st (take 64 bs)) (drop 64 bs)"

definition length_bytes :: "64 word \<Rightarrow> byte list" where
  \<comment> \<open>the message length in bits, eight bytes, least significant first\<close>
  "length_bytes w = map (\<lambda>i. ucast (drop_bit (8 * i) w)) [0..<8]"

definition md5_pad :: "byte list \<Rightarrow> byte list" where
  "md5_pad bs =
     bs @ [0x80] @ replicate ((119 - length bs mod 64) mod 64) 0
        @ length_bytes (8 * word_of_nat (length bs))"

definition md5_init :: md5_state where
  "md5_init = (0x67452301, 0xefcdab89, 0x98badcfe, 0x10325476)"

definition word_bytes :: "32 word \<Rightarrow> byte list" where
  "word_bytes w = map (\<lambda>i. ucast (drop_bit (8 * i) w)) [0..<4]"

definition md5_digest :: "byte list \<Rightarrow> byte list" where
  "md5_digest bs =
     (let p = md5_pad bs in
      case md5_blocks (length p div 64) md5_init p of
        (a, b, c, d) \<Rightarrow> concat (map word_bytes [a, b, c, d]))"

definition hex_digits :: string where
  "hex_digits = ''0123456789abcdef''"

definition hex_byte :: "byte \<Rightarrow> string" where
  "hex_byte b = [hex_digits ! (unat b div 16), hex_digits ! (unat b mod 16)]"

definition md5_hexdigest :: "byte list \<Rightarrow> string" where
  \<comment> \<open>\<open>hashlib.md5(bs).hexdigest()\<close>\<close>
  "md5_hexdigest bs = concat (map hex_byte (md5_digest bs))"

section \<open>Query essence\<close>

definition suspicious_tokens :: "string list" where
  "suspicious_tokens = [''assistant:'', ''user:'', ''assistant'', ''user'', ''sommelier:'']"

definition strip_tokens :: "string \<Rightarrow> string" where
  \<comment> \<open>\<open>for token in suspicious_tokens: if token in query: query = query.replace(token, "")\<close>\<close>
  "strip_tokens query =
     foldl (\<lambda>q token. if str_in token q then remove_all token q else q) query suspicious_tokens"

definition is_food_pairing_query :: "string \<Rightarrow> bool" where
  "is_food_pairing_query query0 =
     (let query = strip_tokens (strip (lower query0));
          is_pairing = any_in [''pair'', ''pairing'', ''goes with'', ''good with'', ''match'',
                               ''matching'', ''complement''] query
      in if str_in ''that'' query \<or> str_in ''this'' query
         then is_pairing \<and> any_in [''food'', ''dish'', ''meal'', ''restaurant'', ''cuisine''] query
         else is_pairing)"

definition food_categories :: "string list" where
  "food_categories =
    [''steak'', ''beef'', ''pork'', ''lamb'', ''veal'', ''chicken'', ''turkey'', ''duck'', ''goose'',
     ''meat'', ''burgers'', ''barbecue'', ''bbq'', ''ribs'', ''bacon'', ''ham'', ''sausage'',
     ''fish'', ''salmon'', ''tuna'', ''cod'', ''halibut'', ''trout'', ''seafood'', ''shrimp'', ''lobster'',
     ''crab'', ''oyster'', ''mussel'', ''clam'', ''scallop'', ''squid'', ''octopus'', ''eel'',
     ''pasta'', ''pizza'', ''risotto'', ''lasagna'', ''spaghetti'', ''gnocchi'', ''ravioli'',
     ''cheese'', ''cheddar'', ''brie'', ''camembert'', ''gouda'', ''blue cheese'', ''goat cheese'',
     ''parmesan'', ''feta'', ''mozzarella'', ''ricotta'', ''dairy'',
     ''chocolate'', ''dessert'', ''cake'', ''pie'', ''tart'', ''cookie'', ''pudding'', ''ice cream'',
     ''vegetable'', ''salad'', ''greens'', ''tomato'', ''mushroom'', ''truffle'', ''potato'',
     ''eggplant'', ''zucchini'', ''cucumber'', ''carrot'', ''asparagus'', ''broccoli'',
     ''italian'', ''french'', ''indian'', ''chinese'', ''japanese'', ''mexican'', ''thai'', ''spanish'']"

definition with_fallback :: "string \<Rightarrow> string list" where
  \<comment> \<open>the words after the first "with", at most three, unless they hold a suspicious token\<close>
  "with_fallback query =
     (let parts = split_sep ''with'' query in
      if length parts > 1
      then (let after_with = strip (parts ! 1);
                food_part = join '' '' (take 3 (split after_with))
            in if \<not> any_in suspicious_tokens food_part then [food_part] else [])
      else [])"

definition clean_foods :: "string list \<Rightarrow> string list" where
  \<comment> \<open>the final validation loop\<close>
  "clean_foods found_foods =
     filter (\<lambda>food. \<not> (strip food = [] \<or> strip food \<in> set [''that'', ''this'', ''these'', ''those'', ''it'']))
       (map (rstrip_chars ''.,?!:;'') found_foods)"

definition extract_food_items :: "string \<Rightarrow> string list" where
  "extract_food_items query0 =
     (if str_in ''option'' (lower query0) \<or> str_in ''sounds good'' (lower query0)
         \<or> any_in [''that wine'', ''that option''] (lower query0)
      then []
      else
        (let query1 = strip (lower query0) in
         if any_in [''first suggestion'', ''second suggestion'', ''third suggestion'',
                    ''that suggestion'', ''option'', ''sounds good''] query1
         then []
         else
           (let query = strip_tokens query1;
                found = filter (\<lambda>food. str_in food query) food_categories;
                found_foods =
                  (if found = [] \<and> (str_in ''pair'' query \<or> str_in ''pairing'' query)
                   then found @ with_fallback query else found)
            in if found_foods = [] \<and> (str_in ''that'' query \<or> str_in ''this'' query)
                  \<and> (str_in ''pair'' query \<or> str_in ''dish'' query \<or> str_in ''food'' query)
               then []
               else clean_foods found_foods)))"

definition stopwords :: "string list" where
  "stopwords =
    [''what'', ''which'', ''how'', ''is'', ''are'', ''the'', ''a'', ''an'', ''in'', ''with'', ''for'', ''to'',
     ''of'', ''would'', ''should'', ''could'', ''will'', ''can'', ''do'', ''does'', ''has'', ''have'', ''had'',
     ''i'', ''you'', ''he'', ''she'', ''we'', ''they'', ''it'', ''this'', ''that'', ''these'', ''those'',
     ''am'', ''is'', ''are'', ''was'', ''were'', ''be'', ''been'', ''being'', ''there'', ''their'', ''me'',
     ''and'', ''or'', ''but'', ''if'', ''then'', ''so'', ''because'', ''since'', ''while'', ''when'', ''where'',
     ''why'', ''how'', ''all'', ''any'', ''both'', ''each'', ''few'', ''more'', ''most'', ''other'', ''some'',
     ''such'', ''no'', ''nor'', ''not'', ''only'', ''own'', ''same'', ''than'', ''too'', ''very'', ''just'',
     ''should'', ''now'', ''also'', ''very'', ''really'', ''quite'']"

definition wine_stopwords :: "string list" where
  "wine_stopwords =
    [''wine'', ''wines'', ''drink'', ''bottle'', ''glass'', ''recommend'', ''suggestion'',
     ''taste'', ''flavor'', ''recommend'', ''tell'', ''about'', ''know'', ''like'', ''good'']"

definition important_terms :: "string list" where
  "important_terms =
    [''cabernet'', ''merlot'', ''chardonnay'', ''pinot'', ''sauvignon'', ''riesling'', ''shiraz'',
     ''zinfandel'', ''syrah'', ''malbec'', ''champagne'', ''prosecco'', ''bordeaux'', ''burgundy'',
     ''vintage'', ''terroir'', ''tannin'', ''acidity'', ''oak'', ''body'', ''dry'', ''sweet'', ''pairing'',
     ''decant'', ''cellar'', ''sommelier'', ''vineyard'', ''winery'', ''german'', ''french'', ''italian'',
     ''spanish'']"

text \<open>
  The weights of \<open>_extract_key_terms\<close> are floats in Python and exact rationals here. Two
  words of different classes whose exact weights tie (say \<open>1 + 1/6\<close> and \<open>0.5 + 4/6\<close>) can
  be ordered by float rounding in Python; no property below depends on the order of the
  key terms.
\<close>

definition word_weight :: "nat \<Rightarrow> nat \<Rightarrow> string \<Rightarrow> rat" where
  "word_weight n i word_lower =
     (if word_lower \<in> set wine_stopwords \<and> n > 3 then 1 / 2
      else if word_lower \<in> set important_terms then 2
      else 1) + of_nat (i + 1) / of_nat n"

definition weighted_words :: "string list \<Rightarrow> (string \<times> rat) list" where
  "weighted_words words =
     concat (map (\<lambda>(i, word).
        let word_lower = lower word in
        if word_lower \<in> set stopwords then []
        else if length word_lower \<le> 2 then []
        else [(word_lower, word_weight (length words) i word_lower)])
      (enumerate 0 words))"

definition extract_key_terms :: "string \<Rightarrow> string" where
  "extract_key_terms query =
     (let words = split query;
          sorted_words = sort_key (\<lambda>p. - snd p) (weighted_words words);
          top_words = map fst (take 5 sorted_words)
      in if top_words = [] then query else join '' '' top_words)"

definition extract_wine_type :: "string \<Rightarrow> string option" where
  "extract_wine_type query =
     (if any_in [''red'', ''cabernet'', ''merlot'', ''pinot noir'', ''syrah'', ''shiraz'', ''malbec'',
                 ''zinfandel''] query then Some ''red''
      else if any_in [''white'', ''chardonnay'', ''sauvignon blanc'', ''pinot grigio'', ''riesling'',
                      ''moscato''] query then Some ''white''
      else if any_in [''sparkling'', ''champagne'', ''prosecco'', ''cava'', ''bubbly''] query
           then Some ''sparkling''
      else if any_in [''ros'' @ [char_of (233 :: nat)], ''rose'', ''pink wine''] query then Some ''rose''
      else None)"

definition is_digit :: "char \<Rightarrow> bool" where
  "is_digit c = (48 \<le> (of_char c :: nat) \<and> (of_char c :: nat) \<le> 57)"

fun re_search :: "(string \<Rightarrow> 'a option) \<Rightarrow> string \<Rightarrow> 'a option" where
  \<comment> \<open>\<open>re.search\<close>: the match at the leftmost position where the pattern matches\<close>
  "re_search m [] = m []"
| "re_search m (c # cs) = (case m (c # cs) of Some g \<Rightarrow> Some g | None \<Rightarrow> re_search m cs)"

definition dollar_digits :: "string \<Rightarrow> (string \<times> string) option" where
  \<comment> \<open>\<open>\$(\d+)\<close> at the start of \<open>s\<close>: the digits and the rest\<close>
  "dollar_digits s =
     (case s of [] \<Rightarrow> None
      | c # r \<Rightarrow> if c = CHR ''$'' \<and> takeWhile is_digit r \<noteq> []
                then Some (takeWhile is_digit r, dropWhile is_digit r) else None)"

definition match_word_price :: "string \<Rightarrow> string \<Rightarrow> string option" where
  \<comment> \<open>\<open>word\s+\$(\d+)\<close> at the start of \<open>s\<close>\<close>
  "match_word_price word s =
     (if prefix word s
      then (let r = drop (length word) s in
            if takeWhile is_space r \<noteq> [] then map_option fst (dollar_digits (dropWhile is_space r))
            else None)
      else None)"

definition match_price_span :: "string \<Rightarrow> (string \<times> string) option" where
  \<comment> \<open>\<open>\$(\d+)-\$?(\d+)\<close> at the start of \<open>s\<close>\<close>
  "match_price_span s =
     (case dollar_digits s of None \<Rightarrow> None
      | Some (g1, r) \<Rightarrow>
          (case r of [] \<Rightarrow> None
           | c # r1 \<Rightarrow>
               if c = CHR ''-''
               then (let r2 = (case r1 of [] \<Rightarrow> r1 | d # r3 \<Rightarrow> if d = CHR ''$'' then r3 else r1)
                     in if takeWhile is_digit r2 \<noteq> [] then Some (g1, takeWhile is_digit r2) else None)
               else None))"

definition match_dollars :: "string \<Rightarrow> string option" where
  \<comment> \<open>\<open>(\d+)\s+dollars\<close> at the start of \<open>s\<close>\<close>
  "match_dollars s =
     (let g = takeWhile is_digit s; r = dropWhile is_digit s in
      if g \<noteq> [] \<and> takeWhile is_space r \<noteq> [] \<and> prefix ''dollars'' (dropWhile is_space r)
      then Some g else None)"

definition extract_price_range :: "string \<Rightarrow> string option" where
  "extract_price_range query =
     (case re_search (match_word_price ''under'') query of Some g \<Rightarrow> Some (''price_'' @ g)
      | None \<Rightarrow>
     (case re_search (match_word_price ''less than'') query of Some g \<Rightarrow> Some (''price_'' @ g)
      | None \<Rightarrow>
     (case re_search (match_word_price ''around'') query of Some g \<Rightarrow> Some (''price_'' @ g)
      | None \<Rightarrow>
     (case re_search match_price_span query of Some (g1, g2) \<Rightarrow> Some (''price_'' @ g1 @ ''_to_'' @ g2)
      | None \<Rightarrow>
     (case re_search (\<lambda>s. map_option fst (dollar_digits s)) query of Some g \<Rightarrow> Some (''price_'' @ g)
      | None \<Rightarrow>
     (case re_search match_dollars query of Some g \<Rightarrow> Some (''price_'' @ g)
      | None \<Rightarrow>
        if str_in ''cheap'' query \<or> str_in ''inexpensive'' query \<or> str_in ''budget'' query
        then Some ''price_budget''
        else if str_in ''expensive'' query \<or> str_in ''premium'' query \<or> str_in ''luxury'' query
        then Some ''price_premium''
        else None))))))"

definition regions :: "(string \<times> string list) list" where
  "regions =
    [(''france'', [''french'', ''france'', ''bordeaux'', ''burgundy'', ''champagne'', ''rhone'', ''loire'']),
     (''italy'', [''italian'', ''italy'', ''tuscany'', ''piedmont'', ''veneto'', ''sicily'']),
     (''spain'', [''spanish'', ''spain'', ''rioja'', ''catalonia'', ''ribera'']),
     (''usa'', [''american'', ''california'', ''napa'', ''sonoma'', ''oregon'', ''washington'']),
     (''australia'', [''australian'', ''australia'', ''barossa'', ''margaret river'']),
     (''new_zealand'', [''new zealand'', ''marlborough'']),
     (''argentina'', [''argentinian'', ''argentina'', ''mendoza'']),
     (''chile'', [''chilean'', ''chile'']),
     (''germany'', [''german'', ''germany'', ''mosel'', ''rheingau''])]"

definition extract_region :: "string \<Rightarrow> string option" where
  "extract_region query =
     map_option fst (find (\<lambda>(region, terms). any_in terms (lower query)) regions)"

definition exact_stopwords :: "string list" where
  "exact_stopwords = [''a'', ''an'', ''the'', ''is'', ''are'', ''that'', ''this'', ''with'', ''for'', ''to'',
     ''in'', ''of'', ''and'', ''or'']"

definition exact_query_of :: "string \<Rightarrow> string" where
  \<comment> \<open>the exact-match component: the words without the stop words, replaced by
      \<open>"q_"\<close> and ten hex digits of its MD5 when it is longer than 30 characters\<close>
  "exact_query_of normalized =
     (let exact_query = join '' '' (filter (\<lambda>word. word \<notin> set exact_stopwords) (split normalized))
      in if length exact_query > 30
         then ''q_'' @ take 10 (md5_hexdigest (encode exact_query)) else exact_query)"

definition option_list :: "'a option \<Rightarrow> 'a list" where
  "option_list x = (case x of None \<Rightarrow> [] | Some v \<Rightarrow> [v])"

definition get_query_essence :: "string \<Rightarrow> string" where
  "get_query_essence query =
     (let normalized = strip (lower query);
          exact_query = exact_query_of normalized;
          food_items = extract_food_items normalized;
          constraints = filter (\<lambda>c. c \<noteq> [])
            (option_list (extract_wine_type normalized) @ option_list (extract_price_range normalized)
               @ option_list (extract_region normalized))
      in if is_food_pairing_query normalized \<and> food_items \<noteq> []
         then ''exact_'' @ exact_query @ ''_pair_with_'' @ join '' '' food_items
         else if any_in [''recommend'', ''suggest'', ''looking for'', ''what wine''] normalized
                 \<and> constraints \<noteq> []
         then ''exact_'' @ exact_query @ ''_recommend_'' @ join '' '' constraints
         else ''exact_'' @ exact_query @ ''_'' @ extract_key_terms normalized)"

definition conv_component :: "string option \<Rightarrow> string" where
  \<comment> \<open>\<open>f"|conv_{self.conversation_id}" if self.conversation_id else ""\<close>\<close>
  "conv_component conv_id =
     (if truthy conv_id then ''|conv_'' @ the conv_id else [])"

definition stable_id_components :: "string option \<Rightarrow> string \<Rightarrow> string \<Rightarrow> string \<Rightarrow> string" where
  \<comment> \<open>the string that is hashed; the two identifiers are given as the f-string prints them\<close>
  "stable_id_components conv_id query_essence data_source_id prompt_id =
     query_essence @ ''|'' @ data_source_id @ ''|'' @ prompt_id @ conv_component conv_id"

definition generate_stable_id :: "string option \<Rightarrow> string \<Rightarrow> string \<Rightarrow> string \<Rightarrow> string" where
  \<comment> \<open>the first argument is \<open>self.conversation_id\<close>\<close>
  "generate_stable_id conv_id query_essence data_source_id prompt_id =
     ''sommelier_'' @
       md5_hexdigest (encode (stable_id_components conv_id query_essence data_source_id prompt_id))"

section \<open>Conversation context and generation\<close>

definition capitalized :: "role \<Rightarrow> string" where
  \<comment> \<open>\<open>msg['role'].capitalize()\<close> for the two roles the history holds\<close>
  "capitalized r = (case r of User \<Rightarrow> ''User'' | Assistant \<Rightarrow> ''Assistant'')"

definition newline :: char where
  "newline = CHR 0x0A"

definition context_line :: "message \<Rightarrow> string" where
  "context_line msg =
     (let content = msg_content msg;
          content1 = (if length content > 100 then take 97 content @ ''...'' else content)
      in [newline] @ capitalized (msg_role msg) @ '': '' @ content1)"

definition build_conversation_context :: "message list \<Rightarrow> string" where
  "build_conversation_context history =
     (if history = []
      then ''You are a knowledgeable sommelier AI assistant. This is the start of a new conversation.''
      else
        (let recent_messages =
               (if length history \<ge> 2 then drop (length history - 2) history else history);
             context = foldl (\<lambda>c msg. c @ context_line msg)
               ''You are a knowledgeable sommelier AI assistant. Continue the conversation naturally.''
               recent_messages
         in if length (encode context) > 450
            then ''You are a knowledgeable sommelier AI assistant. Continue the conversation naturally based on previous messages about wine.''
            else context))"

definition truncate_query :: "string \<Rightarrow> string" where
  \<comment> \<open>\<open>if len(query) > 450: query = query[:450] + "..."\<close>\<close>
  "truncate_query query = (if length query > 450 then take 450 query @ ''...'' else query)"

definition full_query_of :: "message list \<Rightarrow> string \<Rightarrow> string" where
  \<comment> \<open>\<open>full_query\<close>, from the history and the truncated query\<close>
  "full_query_of history query =
     (let context = build_conversation_context history;
          full_query = context @ [newline, newline] @ ''User: '' @ query
      in if length (encode full_query) > 512 then ''User: '' @ query else full_query)"

text \<open>
  One call of the generation service ends in one of three ways: the service answers;
  \<open>requests\<close> raises a \<open>RequestException\<close> (with the status code of its response, when
  it has one); or something else raises. The service is a function from the number of
  the attempt to the way it ends.
\<close>

datatype outcome =
    Generated string
  | RequestException "nat option" string
  | OtherException string

fun str_nat :: "nat \<Rightarrow> string" where
  "str_nat n = (if n < 10 then [char_of (48 + n)] else str_nat (n div 10) @ [char_of (48 + n mod 10)])"

definition attempt_details :: "nat \<Rightarrow> string \<Rightarrow> string" where
  \<comment> \<open>\<open>f"Attempt {attempt+1}: {str(e)}"\<close>\<close>
  "attempt_details attempt msg = ''Attempt '' @ str_nat (attempt + 1) @ '': '' @ msg"

definition request_error_response :: string where
  "request_error_response = ''I encountered an error while processing your request. Please try again.''"

definition attempts_failed_response :: string where
  "attempts_failed_response =
     ''I apologize, but I couldn'' @ [CHR 0x27] @
     ''t generate a response after multiple attempts. Please try again later.''"

definition high_demand_response :: string where
  "high_demand_response =
     ''I'' @ [CHR 0x27] @ ''m currently experiencing high demand. Please try again in a moment.''"

definition filters_response :: string where
  "filters_response =
     ''I'' @ [CHR 0x27] @ ''m having trouble understanding the context of your follow-up question. Could you please provide more details about what you'' @ [CHR 0x27] @ ''re asking about specifically?''"

definition timeout_response :: string where
  "timeout_response =
     ''It'' @ [CHR 0x27] @ ''s taking longer than expected to process your request. Could you try asking in a simpler way?''"

definition generic_error_response :: string where
  "generic_error_response =
     ''I encountered an issue while processing your question. Could you try rephrasing or asking a new question?''"

fun generation_loop ::
  "(nat \<Rightarrow> outcome) \<Rightarrow> string \<Rightarrow> nat \<Rightarrow> nat \<Rightarrow> nat \<Rightarrow> session \<Rightarrow> nat list
     \<Rightarrow> string option \<times> session \<times> nat list" where
  \<comment> \<open>\<open>for attempt in range(max_retries)\<close>: the attempts left, the number of this attempt,
      \<open>retry_delay\<close>, the session and the sleeps so far (seconds); \<open>None\<close> when the loop
      runs out\<close>
  "generation_loop post now 0 attempt retry_delay s sleeps = (None, s, sleeps)"
| "generation_loop post now (Suc remaining) attempt retry_delay s sleeps =
     (case post attempt of
        Generated text \<Rightarrow> (Some text, s, sleeps)
      | RequestException status msg \<Rightarrow>
          (let s1 = log_error now (Some ''API Error'') (Some (attempt_details attempt msg)) s in
           if status = Some 429
           then generation_loop post now remaining (Suc attempt) (retry_delay * 2) s1
                  (sleeps @ [retry_delay])
           else (Some request_error_response, s1, sleeps))
      | OtherException msg \<Rightarrow>
          (let s1 = log_error now (Some ''General Error'') (Some (attempt_details attempt msg)) s in
           generation_loop post now remaining (Suc attempt) (retry_delay * 2) s1
             (sleeps @ [retry_delay])))"

definition generate_response ::
  "(nat \<Rightarrow> outcome) \<Rightarrow> string \<Rightarrow> session \<Rightarrow> string \<times> session \<times> nat list" where
  \<comment> \<open>the retry loop with \<open>max_retries = 3\<close> and \<open>retry_delay = 2\<close>: the response text,
      the session and the sleeps. The identifier and the stored copy of the answer are
      left to \<open>process_query\<close> and to the store.\<close>
  "generate_response post now s =
     (case generation_loop post now 3 0 2 s [] of
        (Some text, s1, sleeps) \<Rightarrow> (text, s1, sleeps)
      | (None, s1, sleeps) \<Rightarrow> (attempts_failed_response, s1, sleeps))"

record environment =
  env_now :: string                  \<comment> \<open>the clock\<close>
  env_elapsed :: rat                 \<comment> \<open>\<open>time.time() - start_time\<close>\<close>
  env_inferred_type :: "string option"   \<comment> \<open>\<open>_infer_prompt_type_from_query(query)\<close>\<close>
  env_prompt :: "string + string"
    \<comment> \<open>\<open>_select_prompt\<close>: the prompt identifier, or the text of the exception it raises\<close>
  env_data_source :: string          \<comment> \<open>\<open>_select_data_source(query)\<close>\<close>
  env_previous :: "hit option"       \<comment> \<open>\<open>find_previous_response(...)\<close>\<close>
  env_post :: "nat \<Rightarrow> outcome"      \<comment> \<open>the generation service\<close>
  env_fresh_id :: string             \<comment> \<open>\<open>f"conv-{str(uuid.uuid4())[:8]}"\<close>\<close>

record query_result =
  qr_response :: string
  qr_conversation_id :: "string option"
  qr_sent :: "string option"         \<comment> \<open>the query text sent to the generation service\<close>
  qr_sleeps :: "nat list"

definition error_response :: "string \<Rightarrow> string" where
  \<comment> \<open>the wording chosen in the \<open>except\<close> branch of \<open>process_query\<close>\<close>
  "error_response error_message =
     (if str_in ''filters:'' error_message then filters_response
      else if str_in ''rate limit'' (lower error_message) then high_demand_response
      else if str_in ''timeout'' (lower error_message) then timeout_response
      else generic_error_response)"

definition append_exchange :: "string \<Rightarrow> string \<Rightarrow> message list \<Rightarrow> message list" where
  "append_exchange query response_text history =
     history @ [\<lparr>msg_role = User, msg_content = query\<rparr>,
                \<lparr>msg_role = Assistant, msg_content = response_text\<rparr>]"

definition process_query ::
  "environment \<Rightarrow> string \<Rightarrow> string option \<Rightarrow> string option \<Rightarrow> assistant
     \<Rightarrow> query_result \<times> assistant" where
  "process_query env query0 prompt_type0 conversation_id0 a0 =
     (let a1 = (if truthy conversation_id0 then a0\<lparr>conversation_id := conversation_id0\<rparr> else a0);
          prompt_type =
            (if truthy (conversation_id a1) \<and> \<not> truthy prompt_type0 then env_inferred_type env
             else prompt_type0);
          query_type = Some (if truthy prompt_type then the prompt_type else ''auto'')
      in case env_prompt env of
           Inl error_message \<Rightarrow>
             (let s1 = log_error (env_now env) (Some ''Query Processing Error'') (Some error_message)
                         (current_session a1);
                  s2 = log_query (env_now env) query0 False (env_elapsed env) query_type None s1
              in (\<lparr>qr_response = error_response error_message,
                    qr_conversation_id = conversation_id a1, qr_sent = None, qr_sleeps = []\<rparr>,
                  a1\<lparr>current_session := s2\<rparr>))
         | Inr prompt_id \<Rightarrow>
             (let query = truncate_query query0;
                  full_query = full_query_of (conversation_history a1) query;
                  object_id = generate_stable_id (conversation_id a1) (get_query_essence query)
                                (env_data_source env) prompt_id
              in case env_previous env of
                   Some previous_response \<Rightarrow>
                     (let response_text = hit_response previous_response;
                          a2 = (case hit_conversation_id previous_response of
                                  None \<Rightarrow> a1
                                | Some v \<Rightarrow> if \<not> truthy (conversation_id a1)
                                            then a1\<lparr>conversation_id := v\<rparr> else a1);
                          s1 = log_query (env_now env) query True (env_elapsed env) query_type
                                 (Some object_id) (current_session a2)
                      in (\<lparr>qr_response = response_text, qr_conversation_id = conversation_id a2,
                            qr_sent = None, qr_sleeps = []\<rparr>,
                          a2\<lparr>conversation_history :=
                                append_exchange query response_text (conversation_history a2),
                             current_session := s1\<rparr>))
                 | None \<Rightarrow>
                     (let a2 = (if \<not> truthy (conversation_id a1)
                                then a1\<lparr>conversation_id := Some (env_fresh_id env)\<rparr> else a1)
                      in case generate_response (env_post env) (env_now env) (current_session a2) of
                           (response_text, s1, sleeps) \<Rightarrow>
                             (let s2 = log_query (env_now env) query False (env_elapsed env)
                                         query_type (Some object_id) s1
                              in (\<lparr>qr_response = response_text,
                                    qr_conversation_id = conversation_id a2,
                                    qr_sent = Some full_query, qr_sleeps = sleeps\<rparr>,
                                  a2\<lparr>conversation_history :=
                                        append_exchange query response_text (conversation_history a2),
                                     current_session := s2\<rparr>)))))"

section \<open>Sample data\<close>

definition fresh_assistant :: assistant where
  "fresh_assistant =
     \<lparr>current_session = new_session ''t0'', all_sessions = [], metrics_file = None,
      conversation_history = [], conversation_id = None\<rparr>"

definition rate_limited_env :: environment where
  \<comment> \<open>every request is answered with status 429\<close>
  "rate_limited_env =
     \<lparr>env_now = ''t1'', env_elapsed = 14, env_inferred_type = None, env_prompt = Inr ''prompt-1'',
      env_data_source = ''ds-red'', env_previous = None,
      env_post = (\<lambda>i. RequestException (Some 429) ''429 Client Error: Too Many Requests''),
      env_fresh_id = ''conv-1234abcd''\<rparr>"

definition bad_request_env :: environment where
  \<comment> \<open>every request is answered with status 400\<close>
  "bad_request_env =
     \<lparr>env_now = ''t1'', env_elapsed = 1, env_inferred_type = None, env_prompt = Inr ''prompt-1'',
      env_data_source = ''ds-red'', env_previous = None,
      env_post = (\<lambda>i. RequestException (Some 400) ''400 Client Error: Bad Request''),
      env_fresh_id = ''conv-1234abcd''\<rparr>"

definition answering_env :: environment where
  \<comment> \<open>the service answers the first request\<close>
  "answering_env =
     \<lparr>env_now = ''t1'', env_elapsed = 2, env_inferred_type = None, env_prompt = Inr ''prompt-1'',
      env_data_source = ''ds-red'', env_previous = None,
      env_post = (\<lambda>i. Generated ''Try a Syrah.''),
      env_fresh_id = ''conv-1234abcd''\<rparr>"

definition stored_steak :: hit where
  "stored_steak = \<lparr>hit_query = ''User: red wine for steak'', hit_response = ''Try a Malbec.'',
     hit_object_id = ''sommelier_1'', hit_created_at = ''2025-01-02'', hit_conversation_id = None\<rparr>"

definition stored_dinner :: hit where
  "stored_dinner = \<lparr>hit_query = ''Red wine for steak dinner'', hit_response = ''Try a Syrah.'',
     hit_object_id = ''sommelier_2'', hit_created_at = ''2025-01-03'', hit_conversation_id = None\<rparr>"

definition stored_fish :: hit where
  "stored_fish = \<lparr>hit_query = ''white wine for fish'', hit_response = ''Try a Chablis.'',
     hit_object_id = ''sommelier_3'', hit_created_at = ''2025-01-04'', hit_conversation_id = None\<rparr>"

definition sample_session :: session where
  "sample_session =
     log_query ''t3'' ''which red for lamb'' False (3 / 2) (Some ''auto'') None
       (log_error ''t2'' (Some ''API Error'') (Some ''Attempt 1: timeout'')
         (log_query ''t1'' ''what pairs with steak'' True (1 / 2) (Some ''auto'') (Some ''sommelier_1'')
           (new_session ''t0'')))"

definition served_session :: session where
  \<comment> \<open>a hit, the metrics route, then a miss; each query first counts its store lookup\<close>
  "served_session =
     log_query ''t4'' ''which red for lamb'' False (3 / 2) (Some ''auto'') (Some ''sommelier_2'')
       (track_algolia_operation ''get_operations'' 1
         (calculate_derived_metrics
           (log_query ''t2'' ''what pairs with steak'' True (1 / 2) (Some ''auto'') (Some ''sommelier_1'')
             (track_algolia_operation ''get_operations'' 1 (new_session ''t0'')))))"

section \<open>Properties\<close>

lemma best_match_loop_inv:
  "best_match_loop uq hs (bm, bs) = (bm', bs') \<Longrightarrow>
     bs \<le> bs' \<and> (\<forall>h \<in> set hs. hit_similarity uq h \<le> bs') \<and>
     ((bm' = bm \<and> bs' = bs) \<or> (\<exists>h \<in> set hs. bm' = Some h \<and> hit_similarity uq h = bs' \<and> bs < bs'))"
proof (induction hs arbitrary: bm bs)
  case Nil
  then show ?case by simp
next
  case (Cons h hs)
  show ?case
  proof (cases "hit_similarity uq h > bs")
    case True
    with Cons.prems have "best_match_loop uq hs (Some h, hit_similarity uq h) = (bm', bs')"
      by simp
    from Cons.IH [OF this] True show ?thesis by auto
  next
    case False
    with Cons.prems have "best_match_loop uq hs (bm, bs) = (bm', bs')"
      by simp
    from Cons.IH [OF this] False show ?thesis by auto
  qed
qed

subsection \<open>Similarity\<close>

text \<open>
  C6, as the code has it. The similarity is symmetric for all strings. A string compared
  with itself scores 1 exactly when it has at least one word; a string without words
  (empty or all whitespace) scores 0, because \<open>_calculate_text_similarity\<close> returns
  \<open>0.0\<close> as soon as one of the word sets is empty.
\<close>

theorem similarity_symmetric_self:
  "calculate_text_similarity a b = calculate_text_similarity b a \<and>
   calculate_text_similarity a a = (if split (lower a) = [] then 0 else 1)"
  by (simp add: calculate_text_similarity_def Let_def Int_commute Un_commute disj_commute)

text \<open>C6 as stated fails at the empty string: its similarity with itself is 0, not 1.\<close>

theorem similarity_self_counterexample:
  "calculate_text_similarity [] [] = 0 \<and> calculate_text_similarity [] [] \<noteq> 1"
  by (simp add: calculate_text_similarity_def split_def lower_def)

subsection \<open>Fuzzy search\<close>

text \<open>
  C5: the similarity stage of \<open>find_previous_response\<close> returns nothing on an empty
  candidate list; a candidate it returns is one of the candidates, scores strictly above
  7/10 and scores at least as high as every other candidate; and when it returns nothing,
  no candidate scores above 7/10.
\<close>

theorem find_best_match_above_threshold:
  "find_best_match uq [] = None \<and>
   (find_best_match uq hits = Some h \<longrightarrow>
      h \<in> set hits \<and> 7 / 10 < hit_similarity uq h \<and>
      (\<forall>h' \<in> set hits. hit_similarity uq h' \<le> hit_similarity uq h)) \<and>
   (find_best_match uq hits = None \<longrightarrow> (\<forall>h' \<in> set hits. hit_similarity uq h' \<le> 7 / 10))"
proof -
  obtain bm bs where r: "best_match_loop uq hits (None, 7 / 10) = (bm, bs)"
    by (cases "best_match_loop uq hits (None, 7 / 10)")
  note inv = best_match_loop_inv [OF r]
  have e: "find_best_match uq [] = None"
    by (simp add: find_best_match_def)
  have s: "find_best_match uq hits = Some h \<longrightarrow>
      h \<in> set hits \<and> 7 / 10 < hit_similarity uq h \<and>
      (\<forall>h' \<in> set hits. hit_similarity uq h' \<le> hit_similarity uq h)"
    using inv r by (auto simp: find_best_match_def split: if_splits)
  have n: "find_best_match uq hits = None \<longrightarrow> (\<forall>h' \<in> set hits. hit_similarity uq h' \<le> 7 / 10)"
    using inv r by (auto simp: find_best_match_def split: if_splits)
  from e s n show ?thesis by blast
qed

lemma steak_search_result:
  "find_best_match ''red wine for steak'' [stored_dinner, stored_steak, stored_fish] = Some stored_steak"
  by code_simp

lemma fish_search_result:
  "find_best_match ''red wine for steak'' [stored_fish] = None"
  by code_simp

lemma steak_scores:
  "hit_similarity ''red wine for steak'' stored_steak = 1"
  "hit_similarity ''red wine for steak'' stored_dinner = 4 / 5"
  "hit_similarity ''red wine for steak'' stored_fish = 1 / 3"
  by code_simp+

theorem find_best_match_above_threshold_witness:
  "find_best_match ''red wine for steak'' [stored_dinner, stored_steak, stored_fish] = Some stored_steak \<and>
   7 / 10 < hit_similarity ''red wine for steak'' stored_steak \<and>
   hit_similarity ''red wine for steak'' stored_dinner \<le> hit_similarity ''red wine for steak'' stored_steak \<and>
   find_best_match ''red wine for steak'' [stored_fish] = None \<and>
   hit_similarity ''red wine for steak'' stored_fish \<le> 7 / 10"
  using find_best_match_above_threshold
          [of "''red wine for steak''" "[stored_dinner, stored_steak, stored_fish]" stored_steak]
        find_best_match_above_threshold [of "''red wine for steak''" "[stored_fish]"]
        steak_search_result fish_search_result
  by simp

subsection \<open>Session metrics\<close>

lemma log_query_fields:
  "total_queries (log_query now q is_hit rt qt oid s) = total_queries s + 1"
  "cache_hits (log_query now q is_hit rt qt oid s) = (if is_hit then cache_hits s + 1 else cache_hits s)"
  "cache_misses (log_query now q is_hit rt qt oid s) = (if is_hit then cache_misses s else cache_misses s + 1)"
  "response_times (log_query now q is_hit rt qt oid s) = response_times s @ [rt]"
  "cache_hit_times (log_query now q is_hit rt qt oid s) =
     (if is_hit then cache_hit_times s @ [rt] else cache_hit_times s)"
  "generation_times (log_query now q is_hit rt qt oid s) =
     (if is_hit then generation_times s else generation_times s @ [rt])"
  "api_errors (log_query now q is_hit rt qt oid s) = api_errors s"
  "errors (log_query now q is_hit rt qt oid s) = errors s"
  by (simp_all add: log_query_def Let_def)

lemma log_error_fields:
  "total_queries (log_error now et d s) = total_queries s"
  "cache_hits (log_error now et d s) = cache_hits s"
  "cache_misses (log_error now et d s) = cache_misses s"
  "response_times (log_error now et d s) = response_times s"
  "cache_hit_times (log_error now et d s) = cache_hit_times s"
  "generation_times (log_error now et d s) = generation_times s"
  "api_errors (log_error now et d s) = api_errors s + 1"
  by (simp_all add: log_error_def Let_def)

lemma new_session_fields:
  "total_queries (new_session now) = 0"
  "cache_hits (new_session now) = 0"
  "cache_misses (new_session now) = 0"
  "response_times (new_session now) = []"
  "cache_hit_times (new_session now) = []"
  "generation_times (new_session now) = []"
  "api_errors (new_session now) = 0"
  "errors (new_session now) = None"
  by (simp_all add: new_session_def)

lemma log_error_effect:
  "log_error now et d s =
     s\<lparr>api_errors := api_errors s + 1,
       errors := Some ((case errors s of None \<Rightarrow> [] | Some es \<Rightarrow> es) @
          [\<lparr>ee_timestamp = now, ee_type = et,
            ee_details = (if truthy d then Some (take 200 (the d)) else None)\<rparr>])\<rparr>"
  by (cases "errors s") (simp_all add: log_error_def Let_def)

lemma reset_metrics_session:
  "current_session (reset_metrics now1 now2 now3 io_ok a) = new_session now3"
  by (simp add: reset_metrics_def)

lemma reachable_consistent: "reachable s \<Longrightarrow> session_consistent s"
proof (induction rule: reachable.induct)
  case (fresh now)
  show ?case by (simp add: session_consistent_def new_session_fields)
next
  case (query s now q is_hit rt qt oid)
  then show ?case by (simp add: session_consistent_def log_query_fields)
next
  case (error s now et details)
  then show ?case by (simp add: session_consistent_def log_error_fields)
next
  case (reset a now1 now2 now3 io_ok)
  show ?case by (simp add: reset_metrics_session session_consistent_def new_session_fields)
qed

text \<open>
  C10: in every session reachable from a fresh one by \<open>log_query\<close>, \<open>log_error\<close> and
  \<open>reset_metrics\<close>, the total is the sum of hits and misses and the three latency lists
  have the lengths of the three counters; \<open>log_error\<close> leaves these quantities as they are:
  all it does is add one to the error counter and append one entry whose detail text is
  cut to 200 characters.
\<close>

theorem metrics_counters_consistent:
  assumes "reachable s"
  shows "total_queries s = cache_hits s + cache_misses s \<and>
         length (response_times s) = total_queries s \<and>
         length (cache_hit_times s) = cache_hits s \<and>
         length (generation_times s) = cache_misses s \<and>
         log_error now et d s =
           s\<lparr>api_errors := api_errors s + 1,
             errors := Some ((case errors s of None \<Rightarrow> [] | Some es \<Rightarrow> es) @
               [\<lparr>ee_timestamp = now, ee_type = et,
                 ee_details = (if truthy d then Some (take 200 (the d)) else None)\<rparr>])\<rparr>"
  using reachable_consistent [OF assms] log_error_effect [of now et d s]
  by (simp add: session_consistent_def)

lemma sample_session_reachable: "reachable sample_session"
  unfolding sample_session_def by (intro reachable.intros)

lemma sample_session_counters:
  "total_queries sample_session = 2" "cache_hits sample_session = 1"
  "cache_misses sample_session = 1" "api_errors sample_session = 1"
  by (simp_all add: sample_session_def log_query_fields log_error_fields new_session_fields)

theorem metrics_counters_consistent_witness:
  "reachable sample_session \<and> total_queries sample_session = 2 \<and>
   total_queries sample_session = cache_hits sample_session + cache_misses sample_session \<and>
   length (response_times sample_session) = total_queries sample_session \<and>
   length (cache_hit_times sample_session) = cache_hits sample_session \<and>
   length (generation_times sample_session) = cache_misses sample_session \<and>
   api_errors (log_error ''t4'' None None sample_session) = 2"
  using metrics_counters_consistent [OF sample_session_reachable, of "''t4''" None None]
        sample_session_reachable sample_session_counters
  by (simp add: log_error_fields)







lemma derived_metrics_fields:
  "total_queries (calculate_derived_metrics s) = total_queries s"
  "cache_hits (calculate_derived_metrics s) = cache_hits s"
  "cache_misses (calculate_derived_metrics s) = cache_misses s"
  "derived (calculate_derived_metrics s) = Some (derived_values s)"
  by (simp_all add: calculate_derived_metrics_def)

lemma track_operation_fields:
  "total_queries (track_algolia_operation op n s) = total_queries s"
  "cache_hits (track_algolia_operation op n s) = cache_hits s"
  "cache_misses (track_algolia_operation op n s) = cache_misses s"
  by (simp_all add: track_algolia_operation_def)

lemma save_metrics_session:
  "current_session (save_metrics now1 now2 io_ok a) =
     calculate_derived_metrics ((current_session a)\<lparr>end_time := Some now1\<rparr>)"
  by (simp add: save_metrics_def Let_def)

text \<open>
  Every method that writes the session keeps the total equal to the hits plus the
  misses: the hypothesis of the first part of C9 holds in every state of the session,
  also after the derived values were stored and after store operations were counted.
\<close>

lemma session_state_counters:
  "session_state s \<Longrightarrow> total_queries s = cache_hits s + cache_misses s"
proof (induction rule: session_state.induct)
  case (fresh now)
  show ?case by (simp add: new_session_fields)
next
  case (query s now q is_hit rt qt oid)
  then show ?case by (simp add: log_query_fields)
next
  case (error s now et details)
  then show ?case by (simp add: log_error_fields)
next
  case (reset a now1 now2 now3 io_ok)
  show ?case by (simp add: reset_metrics_session new_session_fields)
next
  case (derive s)
  then show ?case by (simp add: derived_metrics_fields)
next
  case (save a now1 now2 io_ok)
  then show ?case by (simp add: save_metrics_session derived_metrics_fields)
next
  case (ended s now)
  then show ?case by simp
next
  case (track s operation_type count)
  then show ?case by (simp add: track_operation_fields)
qed

lemma reachable_session_state: "reachable s \<Longrightarrow> session_state s"
  by (induction rule: reachable.induct) (auto intro: session_state.intros)


lemma served_session_state: "session_state served_session"
  unfolding served_session_def by (intro session_state.intros)




subsection \<open>The MD5 model\<close>

text \<open>The model against the test suite of RFC 1321, section A.5.\<close>

lemma md5_test_empty: "md5_hexdigest (encode []) = ''d41d8cd98f00b204e9800998ecf8427e''"
  by code_simp

lemma md5_test_abc: "md5_hexdigest (encode ''abc'') = ''900150983cd24fb0d6963f7d28e17f72''"
  by code_simp

lemma md5_test_two_blocks:
  "md5_hexdigest (encode
     ''12345678901234567890123456789012345678901234567890123456789012345678901234567890'') =
   ''57edf4a22be3c955ac49da2e2107b67a''"
  by code_simp

lemma length_word_bytes: "length (word_bytes w) = 4"
  by (simp add: word_bytes_def)

lemma length_md5_digest: "length (md5_digest bs) = 16"
  by (simp add: md5_digest_def Let_def length_word_bytes split: prod.split)

lemma length_hex_byte: "length (hex_byte b) = 2"
  by (simp add: hex_byte_def)

lemma length_concat_hex: "length (concat (map hex_byte bs)) = 2 * length bs"
  by (induction bs) (simp_all add: length_hex_byte)

lemma length_md5_hexdigest: "length (md5_hexdigest bs) = 32"
  by (simp add: md5_hexdigest_def length_concat_hex length_md5_digest)

lemma hex_digit_in: "n < 16 \<Longrightarrow> hex_digits ! n \<in> set hex_digits"
  by (rule nth_mem) (simp add: hex_digits_def)

lemma hex_byte_chars: "set (hex_byte b) \<subseteq> set hex_digits"
proof -
  have "unat b < 256" using unsigned_less [of b, where ?'a = nat] by simp
  then have "unat b div 16 < 16" by simp
  moreover have "unat b mod 16 < 16" by simp
  ultimately show ?thesis by (simp add: hex_byte_def hex_digit_in)
qed

lemma md5_hexdigest_chars: "set (md5_hexdigest bs) \<subseteq> set hex_digits"
  using hex_byte_chars by (auto simp: md5_hexdigest_def)

subsection \<open>UTF-8\<close>

lemma byte_of_nat_eq:
  "n < 256 \<Longrightarrow> m < 256 \<Longrightarrow> (word_of_nat n :: byte) = word_of_nat m \<Longrightarrow> n = m"
  by (simp add: word_of_nat_eq_iff take_bit_nat_eq_self)

lemma utf8_char_prefix_free:
  assumes "utf8_char c @ xs = utf8_char d @ ys"
  shows "c = d \<and> xs = ys"
proof -
  define n where "n = (of_char c :: nat)"
  define m where "m = (of_char d :: nat)"
  have nb: "n < 256" and mb: "m < 256"
    by (simp_all add: n_def m_def)
  have eqnm: "n = m"
  proof (cases "n < 128"; cases "m < 128")
    assume a: "n < 128" "m < 128"
    with assms have "(word_of_nat n :: byte) = word_of_nat m"
      by (simp add: utf8_char_def Let_def n_def m_def)
    then show ?thesis using nb mb by (rule_tac byte_of_nat_eq)
  next
    assume a: "n < 128" "\<not> m < 128"
    with assms have "(word_of_nat n :: byte) = word_of_nat (192 + m div 64)"
      by (simp add: utf8_char_def Let_def n_def m_def)
    then have "n = 192 + m div 64"
      using nb mb by (intro byte_of_nat_eq) simp_all
    with a show ?thesis by simp
  next
    assume a: "\<not> n < 128" "m < 128"
    with assms have "(word_of_nat (192 + n div 64) :: byte) = word_of_nat m"
      by (simp add: utf8_char_def Let_def n_def m_def)
    then have "192 + n div 64 = m"
      using nb mb by (intro byte_of_nat_eq) simp_all
    with a show ?thesis by simp
  next
    assume a: "\<not> n < 128" "\<not> m < 128"
    with assms have e: "(word_of_nat (192 + n div 64) :: byte) = word_of_nat (192 + m div 64)"
      "(word_of_nat (128 + n mod 64) :: byte) = word_of_nat (128 + m mod 64)"
      by (simp_all add: utf8_char_def Let_def n_def m_def)
    have "192 + n div 64 = 192 + m div 64"
      using e(1) nb mb by (intro byte_of_nat_eq) simp_all
    moreover have "128 + n mod 64 = 128 + m mod 64"
      using e(2) nb mb by (intro byte_of_nat_eq) simp_all
    ultimately have "n div 64 = m div 64" "n mod 64 = m mod 64" by simp_all
    then show ?thesis by (metis div_mult_mod_eq)
  qed
  then have cd: "c = d"
    by (simp add: n_def m_def)
  with assms show ?thesis by simp
qed

lemma encode_inj: "encode xs = encode ys \<Longrightarrow> xs = ys"
proof (induction xs arbitrary: ys)
  case Nil
  then show ?case by (cases ys) (auto simp: encode_def utf8_char_def Let_def split: if_splits)
next
  case (Cons c cs)
  show ?case
  proof (cases ys)
    case Nil
    with Cons.prems show ?thesis by (auto simp: encode_def utf8_char_def Let_def split: if_splits)
  next
    case (Cons d ds)
    with Cons.prems have "utf8_char c @ encode cs = utf8_char d @ encode ds"
      by (simp add: encode_def)
    then have "c = d \<and> encode cs = encode ds"
      by (rule utf8_char_prefix_free)
    with Cons.IH Cons show ?thesis by simp
  qed
qed

subsection \<open>Essence of the steak queries\<close>

lemma steak_normalized:
  "strip (lower ''What wine pairs with steak?'') = ''what wine pairs with steak?''"
  "strip (lower ''WHAT WINE pairs with steak?  '') = ''what wine pairs with steak?''"
  "strip (lower ''what pairs well with a good steak'') = ''what pairs well with a good steak''"
  "strip (lower ''user: What wine pairs with steak?'') = ''user: what wine pairs with steak?''"
  by code_simp+

lemma steak_is_pairing:
  "is_food_pairing_query ''what wine pairs with steak?''"
  "is_food_pairing_query ''what pairs well with a good steak''"
  "is_food_pairing_query ''user: what wine pairs with steak?''"
  by code_simp+

lemma steak_food_items:
  "extract_food_items ''what wine pairs with steak?'' = [''steak'']"
  "extract_food_items ''what pairs well with a good steak'' = [''steak'']"
  "extract_food_items ''user: what wine pairs with steak?'' = [''steak'']"
  by code_simp+

lemma steak_exact_query:
  "exact_query_of ''what wine pairs with steak?'' = ''what wine pairs steak?''"
  "exact_query_of ''what pairs well with a good steak'' = ''what pairs well good steak''"
  "exact_query_of ''user: what wine pairs with steak?'' = ''user: what wine pairs steak?''"
  by code_simp+

lemma steak_essence:
  "get_query_essence ''What wine pairs with steak?'' = ''exact_what wine pairs steak?_pair_with_steak''"
  "get_query_essence ''WHAT WINE pairs with steak?  '' = ''exact_what wine pairs steak?_pair_with_steak''"
  "get_query_essence ''what pairs well with a good steak'' =
     ''exact_what pairs well good steak_pair_with_steak''"
  "get_query_essence ''user: What wine pairs with steak?'' =
     ''exact_user: what wine pairs steak?_pair_with_steak''"
  by (simp_all add: get_query_essence_def Let_def steak_normalized steak_is_pairing
        steak_food_items steak_exact_query)

lemma steak_keys:
  "generate_stable_id None ''exact_what wine pairs steak?_pair_with_steak'' ''ds'' ''p'' =
     ''sommelier_2be7d225eade0fc54a29fa0d33b66d61''"
  "generate_stable_id None ''exact_what pairs well good steak_pair_with_steak'' ''ds'' ''p'' =
     ''sommelier_5c2f4c1eb6e1d55cb4c78f0227cccde6''"
  by code_simp+

text \<open>
  C1, as the code has it. Both queries are classified as food pairing and give the single
  food item \<open>steak\<close>. Their essences begin with the exact-match component, which keeps
  every word that is not a stop word, so the essences are two different strings, and with
  data source \<open>ds\<close>, prompt \<open>p\<close> and no conversation the two keys are the two different
  digests below.
\<close>

theorem steak_queries_essence:
  "is_food_pairing_query (strip (lower ''What wine pairs with steak?'')) \<and>
   is_food_pairing_query (strip (lower ''what pairs well with a good steak'')) \<and>
   extract_food_items (strip (lower ''What wine pairs with steak?'')) = [''steak''] \<and>
   extract_food_items (strip (lower ''what pairs well with a good steak'')) = [''steak''] \<and>
   get_query_essence ''What wine pairs with steak?'' = ''exact_what wine pairs steak?_pair_with_steak'' \<and>
   get_query_essence ''what pairs well with a good steak'' =
     ''exact_what pairs well good steak_pair_with_steak'' \<and>
   generate_stable_id None (get_query_essence ''What wine pairs with steak?'') ''ds'' ''p'' =
     ''sommelier_2be7d225eade0fc54a29fa0d33b66d61'' \<and>
   generate_stable_id None (get_query_essence ''what pairs well with a good steak'') ''ds'' ''p'' =
     ''sommelier_5c2f4c1eb6e1d55cb4c78f0227cccde6''"
  by (simp add: steak_normalized steak_is_pairing steak_food_items steak_essence steak_keys)

text \<open>C1 as stated fails: the two essences differ, and so do the two keys.\<close>

theorem steak_queries_counterexample:
  "get_query_essence ''What wine pairs with steak?'' \<noteq>
     get_query_essence ''what pairs well with a good steak'' \<and>
   generate_stable_id None (get_query_essence ''What wine pairs with steak?'') ''ds'' ''p'' \<noteq>
     generate_stable_id None (get_query_essence ''what pairs well with a good steak'') ''ds'' ''p''"
  by (simp add: steak_essence steak_keys)

subsection \<open>Stable identifiers\<close>

lemma stable_id_shape:
  "length (generate_stable_id c e ds p) = 42 \<and>
   take 10 (generate_stable_id c e ds p) = ''sommelier_'' \<and>
   set (drop 10 (generate_stable_id c e ds p)) \<subseteq> set hex_digits"
  by (simp add: generate_stable_id_def length_md5_hexdigest md5_hexdigest_chars)

text \<open>
  C2: the key is a function of the essence, the data source, the prompt and the
  conversation identifier alone, so two queries with the same essence get the same key;
  every key is \<open>sommelier_\<close> followed by 32 lower-case hexadecimal digits, 42 characters.
\<close>

theorem stable_id_deterministic:
  assumes "get_query_essence q1 = get_query_essence q2"
  shows "generate_stable_id c (get_query_essence q1) ds p =
           generate_stable_id c (get_query_essence q2) ds p \<and>
         length (generate_stable_id c (get_query_essence q1) ds p) = 42 \<and>
         take 10 (generate_stable_id c (get_query_essence q1) ds p) = ''sommelier_'' \<and>
         set (drop 10 (generate_stable_id c (get_query_essence q1) ds p)) \<subseteq> set hex_digits"
  using assms stable_id_shape [of c "get_query_essence q1" ds p] by simp

theorem stable_id_deterministic_witness:
  "get_query_essence ''What wine pairs with steak?'' = get_query_essence ''WHAT WINE pairs with steak?  '' \<and>
   generate_stable_id (Some ''conv-1234abcd'') (get_query_essence ''What wine pairs with steak?'') ''ds'' ''p'' =
     generate_stable_id (Some ''conv-1234abcd'') (get_query_essence ''WHAT WINE pairs with steak?  '') ''ds'' ''p'' \<and>
   length (generate_stable_id (Some ''conv-1234abcd'')
     (get_query_essence ''What wine pairs with steak?'') ''ds'' ''p'') = 42"
proof -
  have e: "get_query_essence ''What wine pairs with steak?'' =
           get_query_essence ''WHAT WINE pairs with steak?  ''"
    by (simp add: steak_essence)
  from stable_id_deterministic [OF e, of "Some ''conv-1234abcd''" "''ds''" "''p''"] e
  show ?thesis by simp
qed

lemma components_distinct:
  assumes "c1 \<noteq> c2" and "truthy c1 \<or> truthy c2"
  shows "stable_id_components c1 e ds p \<noteq> stable_id_components c2 e ds p"
  using assms
  by (cases c1; cases c2) (auto simp: stable_id_components_def conv_component_def truthy_def)

text \<open>
  The keys are 42 characters over a finite alphabet and the conversation identifiers are
  unboundedly many, so some two different non-empty identifiers share a key: distinct
  identifiers cannot give distinct keys without exception.
\<close>

lemma stable_id_collision_exists:
  "\<exists>c1 c2. c1 \<noteq> c2 \<and> c1 \<noteq> [] \<and> c2 \<noteq> [] \<and>
     generate_stable_id (Some c1) e ds p = generate_stable_id (Some c2) e ds p"
proof (rule ccontr)
  assume no: "\<not> ?thesis"
  let ?S = "{c :: string. c \<noteq> []}"
  let ?f = "\<lambda>c. generate_stable_id (Some c) e ds p"
  have inj: "inj_on ?f ?S"
    using no by (auto simp: inj_on_def)
  have "?f ` ?S \<subseteq> {xs. set xs \<subseteq> (UNIV :: char set) \<and> length xs = 42}"
    using stable_id_shape by auto
  moreover have "finite {xs. set xs \<subseteq> (UNIV :: char set) \<and> length xs = 42}"
    by (rule finite_lists_length_eq) simp
  ultimately have "finite (?f ` ?S)"
    by (rule finite_subset)
  then have "finite ?S"
    using inj by (rule finite_imageD)
  moreover have "?S = UNIV - {[]}" by auto
  ultimately have "finite (UNIV :: string set)" by simp
  then show False using infinite_UNIV_listI by blast
qed

text \<open>
  C4, as the code has it. An empty conversation identifier is false in Python and is
  treated as no conversation. For two different identifiers of which at least one is
  non-empty, the strings that are hashed differ, and so do their UTF-8 bytes; the two keys
  are the MD5 digests of these two byte strings, so they are equal only if MD5 collides
  on them.
\<close>

theorem conversation_id_separates_components:
  assumes "c1 \<noteq> c2" and "truthy c1 \<or> truthy c2"
  shows "stable_id_components c1 e ds p \<noteq> stable_id_components c2 e ds p \<and>
         encode (stable_id_components c1 e ds p) \<noteq> encode (stable_id_components c2 e ds p) \<and>
         (generate_stable_id c1 e ds p = generate_stable_id c2 e ds p \<longleftrightarrow>
            md5_hexdigest (encode (stable_id_components c1 e ds p)) =
            md5_hexdigest (encode (stable_id_components c2 e ds p)))"
  using components_distinct [OF assms, of e ds p] encode_inj
  by (auto simp: generate_stable_id_def)

lemma conversation_keys:
  "generate_stable_id (Some ''conv-1234abcd'') ''exact_what wine pairs steak?_pair_with_steak'' ''ds'' ''p'' =
     ''sommelier_6fd655ab17ebf06e5d2cf3c3079208a9''"
  by code_simp

theorem conversation_id_separates_components_witness:
  "Some ''conv-1234abcd'' \<noteq> None \<and> truthy (Some ''conv-1234abcd'') \<and>
   stable_id_components (Some ''conv-1234abcd'') ''exact_what wine pairs steak?_pair_with_steak'' ''ds'' ''p'' \<noteq>
     stable_id_components None ''exact_what wine pairs steak?_pair_with_steak'' ''ds'' ''p'' \<and>
   generate_stable_id (Some ''conv-1234abcd'') ''exact_what wine pairs steak?_pair_with_steak'' ''ds'' ''p'' \<noteq>
     generate_stable_id None ''exact_what wine pairs steak?_pair_with_steak'' ''ds'' ''p''"
proof -
  have t: "truthy (Some ''conv-1234abcd'') \<or> truthy None"
    by (simp add: truthy_def)
  have n: "Some ''conv-1234abcd'' \<noteq> None"
    by simp
  from conversation_id_separates_components [OF n t] t conversation_keys steak_keys(1)
  show ?thesis by (simp add: truthy_def)
qed

text \<open>
  C4 as stated fails: an empty conversation identifier and no conversation identifier are
  two different values and give the same key.
\<close>

theorem empty_conversation_id_counterexample:
  "Some [] \<noteq> (None :: string option) \<and>
   generate_stable_id (Some []) ''exact_what wine pairs steak?_pair_with_steak'' ''ds'' ''p'' =
     generate_stable_id None ''exact_what wine pairs steak?_pair_with_steak'' ''ds'' ''p''"
  by (simp add: generate_stable_id_def stable_id_components_def conv_component_def truthy_def)

subsection \<open>Case and role markers\<close>

text \<open>
  C3, as the code has it. The essence is computed from the lower-cased, stripped query
  alone, so two queries that differ only in case (or in surrounding whitespace) have the
  same essence. Role markers are removed only inside the food-pairing test and the food
  extraction; the exact-match component keeps them.
\<close>

theorem essence_case_invariant:
  assumes "strip (lower q1) = strip (lower q2)"
  shows "get_query_essence q1 = get_query_essence q2"
  using assms by (simp add: get_query_essence_def)

theorem essence_case_invariant_witness:
  "strip (lower ''What wine pairs with steak?'') = strip (lower ''WHAT WINE pairs with steak?  '') \<and>
   get_query_essence ''What wine pairs with steak?'' = get_query_essence ''WHAT WINE pairs with steak?  ''"
proof -
  have n: "strip (lower ''What wine pairs with steak?'') = strip (lower ''WHAT WINE pairs with steak?  '')"
    by (simp add: steak_normalized)
  from essence_case_invariant [OF n] n show ?thesis by simp
qed

text \<open>C3 as stated fails: a leading \<open>user:\<close> marker changes the essence.\<close>

theorem role_marker_counterexample:
  "get_query_essence ''user: What wine pairs with steak?'' \<noteq>
     get_query_essence ''What wine pairs with steak?''"
  by (simp add: steak_essence)


subsection \<open>Generation failures\<close>

lemma generate_response_rate_limited:
  assumes "\<forall>i<3. \<exists>m. post i = RequestException (Some 429) m"
  shows "\<exists>s'. generate_response post now s = (attempts_failed_response, s', [2, 4, 8]) \<and>
            api_errors s' = api_errors s + 3 \<and> total_queries s' = total_queries s \<and>
            cache_hits s' = cache_hits s \<and> cache_misses s' = cache_misses s"
proof -
  obtain m0 where p0: "post 0 = RequestException (Some 429) m0"
    using assms by (metis zero_less_numeral)
  obtain m1 where p1: "post (Suc 0) = RequestException (Some 429) m1"
    using assms by (metis One_nat_def one_less_numeral_iff semiring_norm(77))
  obtain m2 where p2: "post (Suc (Suc 0)) = RequestException (Some 429) m2"
    using assms by (metis Suc_1 lessI numeral_3_eq_3)
  show ?thesis
    by (simp add: generate_response_def numeral_3_eq_3 p0 p1 p2 Let_def log_error_fields)
qed

lemma generate_response_not_retried:
  assumes "post 0 = RequestException status m" and "status \<noteq> Some 429"
  shows "\<exists>s'. generate_response post now s = (request_error_response, s', []) \<and>
            api_errors s' = api_errors s + 1 \<and> total_queries s' = total_queries s \<and>
            cache_hits s' = cache_hits s \<and> cache_misses s' = cache_misses s"
  using assms by (simp add: generate_response_def numeral_3_eq_3 Let_def log_error_fields)

lemma process_query_miss:
  assumes "env_prompt env = Inr pid" and "env_previous env = None"
    and "generate_response (env_post env) (env_now env) (current_session a) = (text, s', sleeps)"
  shows "qr_response (fst (process_query env q pt cid a)) = text \<and>
         qr_sleeps (fst (process_query env q pt cid a)) = sleeps \<and>
         qr_sent (fst (process_query env q pt cid a)) =
           Some (full_query_of (conversation_history a) (truncate_query q)) \<and>
         api_errors (current_session (snd (process_query env q pt cid a))) = api_errors s' \<and>
         total_queries (current_session (snd (process_query env q pt cid a))) = total_queries s' + 1 \<and>
         cache_hits (current_session (snd (process_query env q pt cid a))) = cache_hits s' \<and>
         cache_misses (current_session (snd (process_query env q pt cid a))) = cache_misses s' + 1"
  using assms by (simp add: process_query_def Let_def log_query_fields)

lemma process_query_rate_limited:
  assumes "env_prompt env = Inr pid" and "env_previous env = None"
    and "\<forall>i<3. \<exists>m. env_post env i = RequestException (Some 429) m"
  shows "qr_response (fst (process_query env q pt cid a)) = attempts_failed_response \<and>
         qr_sleeps (fst (process_query env q pt cid a)) = [2, 4, 8] \<and>
         api_errors (current_session (snd (process_query env q pt cid a))) =
           api_errors (current_session a) + 3 \<and>
         total_queries (current_session (snd (process_query env q pt cid a))) =
           total_queries (current_session a) + 1 \<and>
         cache_hits (current_session (snd (process_query env q pt cid a))) =
           cache_hits (current_session a) \<and>
         cache_misses (current_session (snd (process_query env q pt cid a))) =
           cache_misses (current_session a) + 1"
proof -
  obtain s' where g: "generate_response (env_post env) (env_now env) (current_session a) =
      (attempts_failed_response, s', [2, 4, 8])"
    and f: "api_errors s' = api_errors (current_session a) + 3"
      "total_queries s' = total_queries (current_session a)"
      "cache_hits s' = cache_hits (current_session a)"
      "cache_misses s' = cache_misses (current_session a)"
    using generate_response_rate_limited [of "env_post env", OF assms(3)] by blast
  show ?thesis
    using process_query_miss [OF assms(1) assms(2) g, of q pt cid] f by simp
qed

lemma process_query_not_retried:
  assumes "env_prompt env = Inr pid" and "env_previous env = None"
    and "env_post env 0 = RequestException status m" and "status \<noteq> Some 429"
  shows "qr_response (fst (process_query env q pt cid a)) = request_error_response \<and>
         qr_sleeps (fst (process_query env q pt cid a)) = [] \<and>
         api_errors (current_session (snd (process_query env q pt cid a))) =
           api_errors (current_session a) + 1 \<and>
         cache_misses (current_session (snd (process_query env q pt cid a))) =
           cache_misses (current_session a) + 1"
proof -
  obtain s' where g: "generate_response (env_post env) (env_now env) (current_session a) =
      (request_error_response, s', [])"
    and f: "api_errors s' = api_errors (current_session a) + 1"
      "cache_misses s' = cache_misses (current_session a)"
    using generate_response_not_retried [of "env_post env" status m, OF assms(3) assms(4)] by blast
  show ?thesis
    using process_query_miss [OF assms(1) assms(2) g, of q pt cid] f by simp
qed

lemma responses_differ: "attempts_failed_response \<noteq> high_demand_response"
  by (simp add: attempts_failed_response_def high_demand_response_def)

lemma rate_limited_env_facts:
  "env_prompt rate_limited_env = Inr ''prompt-1''"
  "env_previous rate_limited_env = None"
  "\<forall>i<3. \<exists>m. env_post rate_limited_env i = RequestException (Some 429) m"
  by (simp_all add: rate_limited_env_def)

lemma bad_request_env_facts:
  "env_prompt bad_request_env = Inr ''prompt-1''"
  "env_previous bad_request_env = None"
  "env_post bad_request_env 0 = RequestException (Some 400) ''400 Client Error: Bad Request''"
  by (simp_all add: bad_request_env_def)

lemma fresh_assistant_counters:
  "api_errors (current_session fresh_assistant) = 0"
  "cache_misses (current_session fresh_assistant) = 0"
  "total_queries (current_session fresh_assistant) = 0"
  "conversation_history fresh_assistant = []"
  by (simp_all add: fresh_assistant_def new_session_fields)

text \<open>
  C7, as the code has it. When the generation service answers 429 on all three attempts,
  the caller gets one degraded response, the apology of \<open>generate_response\<close> for
  repeated failure; every attempt adds an error entry, three in all, and the query is
  logged once, as a miss. The sleeps before the retries are 2, 4 and 8 seconds. A request
  error with another status is not retried: one error entry, no sleep, one miss.
\<close>

theorem generation_failures:
  assumes "env_prompt env = Inr pid" and "env_previous env = None"
  shows "((\<forall>i<3. \<exists>m. env_post env i = RequestException (Some 429) m) \<longrightarrow>
            qr_response (fst (process_query env q pt cid a)) = attempts_failed_response \<and>
            qr_sleeps (fst (process_query env q pt cid a)) = [2, 4, 8] \<and>
            api_errors (current_session (snd (process_query env q pt cid a))) =
              api_errors (current_session a) + 3 \<and>
            total_queries (current_session (snd (process_query env q pt cid a))) =
              total_queries (current_session a) + 1 \<and>
            cache_misses (current_session (snd (process_query env q pt cid a))) =
              cache_misses (current_session a) + 1) \<and>
         ((\<exists>status m. env_post env 0 = RequestException status m \<and> status \<noteq> Some 429) \<longrightarrow>
            qr_response (fst (process_query env q pt cid a)) = request_error_response \<and>
            qr_sleeps (fst (process_query env q pt cid a)) = [] \<and>
            api_errors (current_session (snd (process_query env q pt cid a))) =
              api_errors (current_session a) + 1 \<and>
            cache_misses (current_session (snd (process_query env q pt cid a))) =
              cache_misses (current_session a) + 1)"
  using process_query_rate_limited [OF assms, of q pt cid a]
        process_query_not_retried [OF assms, of _ _ q pt cid a]
  by blast

theorem generation_failures_witness:
  "env_prompt rate_limited_env = Inr ''prompt-1'' \<and> env_previous rate_limited_env = None \<and>
   qr_response (fst (process_query rate_limited_env ''red wine for lamb'' None None fresh_assistant)) =
     attempts_failed_response \<and>
   qr_sleeps (fst (process_query rate_limited_env ''red wine for lamb'' None None fresh_assistant)) =
     [2, 4, 8] \<and>
   api_errors (current_session
     (snd (process_query rate_limited_env ''red wine for lamb'' None None fresh_assistant))) = 3 \<and>
   cache_misses (current_session
     (snd (process_query rate_limited_env ''red wine for lamb'' None None fresh_assistant))) = 1 \<and>
   qr_response (fst (process_query bad_request_env ''red wine for lamb'' None None fresh_assistant)) =
     request_error_response \<and>
   qr_sleeps (fst (process_query bad_request_env ''red wine for lamb'' None None fresh_assistant)) = [] \<and>
   api_errors (current_session
     (snd (process_query bad_request_env ''red wine for lamb'' None None fresh_assistant))) = 1"
  using generation_failures [OF rate_limited_env_facts(1) rate_limited_env_facts(2),
          of "''red wine for lamb''" None None fresh_assistant]
        generation_failures [OF bad_request_env_facts(1) bad_request_env_facts(2),
          of "''red wine for lamb''" None None fresh_assistant]
        rate_limited_env_facts bad_request_env_facts(3) fresh_assistant_counters
  by simp

text \<open>
  C7 as stated fails: after three rate-limit failures the response is not the
  high-demand message, and three errors are recorded, not one.
\<close>

theorem rate_limit_counterexample:
  "qr_response (fst (process_query rate_limited_env ''red wine for lamb'' None None fresh_assistant)) \<noteq>
     high_demand_response \<and>
   api_errors (current_session
     (snd (process_query rate_limited_env ''red wine for lamb'' None None fresh_assistant))) = 3"
  using process_query_rate_limited [OF rate_limited_env_facts,
          of "''red wine for lamb''" None None fresh_assistant]
        fresh_assistant_counters responses_differ
  by simp

subsection \<open>The byte limit of the generation query\<close>

lemma encode_append: "encode (xs @ ys) = encode xs @ encode ys"
  by (simp add: encode_def)

lemma length_encode_replicate: "length (encode (replicate n c)) = n * length (utf8_char c)"
  by (induction n) (simp_all add: encode_def)

lemma length_encode_ascii:
  "\<forall>c \<in> set s. (of_char c :: nat) < 128 \<Longrightarrow> length (encode s) = length s"
  by (induction s) (simp_all add: encode_def utf8_char_def)

lemma e_acute_bytes: "length (utf8_char (char_of (233 :: nat))) = 2"
  by code_simp

lemma start_context_bytes:
  "length (encode ''You are a knowledgeable sommelier AI assistant. This is the start of a new conversation.'') = 88"
  by code_simp

lemma user_prefix_bytes: "length (encode ''User: '') = 6" "length (encode [newline, newline]) = 2"
  by code_simp+

lemma length_encode_Cons: "length (encode (c # cs)) = length (utf8_char c) + length (encode cs)"
  by (simp add: encode_def)

lemma length_utf8_ascii: "(of_char c :: nat) < 128 \<Longrightarrow> length (utf8_char c) = 1"
  by (simp add: utf8_char_def)

lemma full_query_fallback:
  assumes "512 < length (encode (build_conversation_context h)) + 8 + length (encode q)"
  shows "full_query_of h q = ''User: '' @ q"
proof -
  have "length (encode (build_conversation_context h @ [newline, newline] @ ''User: '' @ q)) =
        length (encode (build_conversation_context h)) + 8 + length (encode q)"
    unfolding encode_append length_append user_prefix_bytes by simp
  with assms show ?thesis
    unfolding full_query_of_def Let_def by simp
qed

lemma oversized_full_query:
  "full_query_of [] (truncate_query (replicate 300 (char_of (233 :: nat)))) =
     ''User: '' @ replicate 300 (char_of (233 :: nat))"
proof -
  have t: "truncate_query (replicate 300 (char_of (233 :: nat))) = replicate 300 (char_of (233 :: nat))"
    by (simp add: truncate_query_def)
  have c: "length (encode (build_conversation_context [])) = 88"
    unfolding build_conversation_context_def using start_context_bytes by simp
  have q: "length (encode (replicate 300 (char_of (233 :: nat)))) = 600"
    by (simp add: length_encode_replicate e_acute_bytes)
  show ?thesis
    unfolding t by (rule full_query_fallback) (simp add: c q)
qed

lemma oversized_bytes:
  "length (encode (''User: '' @ replicate 300 (char_of (233 :: nat)))) = 606"
  unfolding encode_append length_append user_prefix_bytes
  by (simp add: length_encode_replicate e_acute_bytes)

text \<open>
  C8 at a query of 300 characters \<open>U+00E9\<close>, in a new conversation, with a generation
  service that answers: the query is not truncated (300 characters), the context is
  dropped, and the text sent to the generation service is \<open>User: \<close> followed by the
  query: 606 bytes of UTF-8, more than 512.
\<close>

theorem multibyte_query_exceeds_limit:
  "qr_sent (fst (process_query answering_env (replicate 300 (char_of (233 :: nat))) None None
      fresh_assistant)) = Some (''User: '' @ replicate 300 (char_of (233 :: nat))) \<and>
   length (encode (''User: '' @ replicate 300 (char_of (233 :: nat)))) = 606"
proof -
  have g: "generate_response (env_post answering_env) (env_now answering_env)
             (current_session fresh_assistant) =
           (''Try a Syrah.'', current_session fresh_assistant, [])"
    by (simp add: generate_response_def numeral_3_eq_3 answering_env_def)
  have p: "env_prompt answering_env = Inr ''prompt-1''" "env_previous answering_env = None"
    by (simp_all add: answering_env_def)
  have s: "qr_sent (fst (process_query answering_env (replicate 300 (char_of (233 :: nat))) None None
      fresh_assistant)) =
      Some (full_query_of (conversation_history fresh_assistant)
        (truncate_query (replicate 300 (char_of (233 :: nat)))))"
    using process_query_miss [OF p g, of "replicate 300 (char_of (233 :: nat))" None None] by blast
  show ?thesis
    unfolding s fresh_assistant_counters oversized_full_query using oversized_bytes by blast
qed


end
